theory Spec2Isabelle
  imports Main "HOL-Library.Word"
begin

unbundle bit_operations_syntax

section \<open>Corsair Vengeance K90 HID driver (hid-corsair-k90.c)\<close>

subsection \<open>Constants\<close>

text \<open>
  Kernel constants the driver names but does not define: the usage-id mask of
  \<^verbatim>\<open>linux/hid.h\<close>, the error numbers of \<^verbatim>\<open>errno.h\<close>, and the key
  codes of \<^verbatim>\<open>linux/input-event-codes.h\<close>.
\<close>

definition HID_USAGE :: "32 word" where "HID_USAGE = 0x0000ffff"

definition ENOMEM :: int where "ENOMEM = 12"
definition EINVAL :: int where "EINVAL = 22"
definition ERANGE :: int where "ERANGE = 34"

definition EV_KEY :: "16 word" where "EV_KEY = 0x01"
definition KEY_F13 :: "16 word" where "KEY_F13 = 183"
definition KEY_F14 :: "16 word" where "KEY_F14 = 184"
definition KEY_F15 :: "16 word" where "KEY_F15 = 185"
definition KEY_F16 :: "16 word" where "KEY_F16 = 186"
definition KEY_F17 :: "16 word" where "KEY_F17 = 187"
definition KEY_F18 :: "16 word" where "KEY_F18 = 188"
definition KEY_F19 :: "16 word" where "KEY_F19 = 189"
definition KEY_F20 :: "16 word" where "KEY_F20 = 190"
definition KEY_F21 :: "16 word" where "KEY_F21 = 191"
definition KEY_F22 :: "16 word" where "KEY_F22 = 192"
definition KEY_F23 :: "16 word" where "KEY_F23 = 193"
definition KEY_F24 :: "16 word" where "KEY_F24 = 194"
definition BTN_MISC :: "16 word" where "BTN_MISC = 0x100"

text \<open>The driver's own constants.\<close>

definition K90_GKEY_COUNT :: nat where "K90_GKEY_COUNT = 18"

definition K90_USAGE_SPECIAL_MIN :: "32 word" where "K90_USAGE_SPECIAL_MIN = 0xf0"
definition K90_USAGE_SPECIAL_MAX :: "32 word" where "K90_USAGE_SPECIAL_MAX = 0xff"

definition K90_USAGE_MACRO_RECORD_START :: "32 word" where "K90_USAGE_MACRO_RECORD_START = 0xf6"
definition K90_USAGE_MACRO_RECORD_STOP :: "32 word" where "K90_USAGE_MACRO_RECORD_STOP = 0xf7"

definition K90_USAGE_PROFILE :: "32 word" where "K90_USAGE_PROFILE = 0xf1"
definition K90_USAGE_M1 :: "32 word" where "K90_USAGE_M1 = 0xf1"
definition K90_USAGE_M2 :: "32 word" where "K90_USAGE_M2 = 0xf2"
definition K90_USAGE_M3 :: "32 word" where "K90_USAGE_M3 = 0xf3"

definition K90_USAGE_META_OFF :: "32 word" where "K90_USAGE_META_OFF = 0xf4"
definition K90_USAGE_META_ON :: "32 word" where "K90_USAGE_META_ON = 0xf5"

definition K90_USAGE_LIGHT :: "32 word" where "K90_USAGE_LIGHT = 0xfa"
definition K90_USAGE_LIGHT_OFF :: "32 word" where "K90_USAGE_LIGHT_OFF = 0xfa"
definition K90_USAGE_LIGHT_DIM :: "32 word" where "K90_USAGE_LIGHT_DIM = 0xfb"
definition K90_USAGE_LIGHT_MEDIUM :: "32 word" where "K90_USAGE_LIGHT_MEDIUM = 0xfc"
definition K90_USAGE_LIGHT_BRIGHT :: "32 word" where "K90_USAGE_LIGHT_BRIGHT = 0xfd"

definition K90_REQUEST_BRIGHTNESS :: "8 word" where "K90_REQUEST_BRIGHTNESS = 49"
definition K90_REQUEST_MACRO_MODE :: "8 word" where "K90_REQUEST_MACRO_MODE = 2"
definition K90_REQUEST_STATUS :: "8 word" where "K90_REQUEST_STATUS = 4"
definition K90_REQUEST_PROFILE :: "8 word" where "K90_REQUEST_PROFILE = 20"

definition K90_MACRO_MODE_SW :: "16 word" where "K90_MACRO_MODE_SW = 0x0030"
definition K90_MACRO_MODE_HW :: "16 word" where "K90_MACRO_MODE_HW = 0x0001"
definition K90_MACRO_LED_ON :: "16 word" where "K90_MACRO_LED_ON = 0x0020"
definition K90_MACRO_LED_OFF :: "16 word" where "K90_MACRO_LED_OFF = 0x0040"

subsection \<open>Usage classification\<close>

text \<open>
  \<^verbatim>\<open>static int k90_usage_to_gkey(unsigned int usage)\<close>: the subtraction and the
  addition are done on \<^verbatim>\<open>unsigned int\<close> and the result is converted to
  \<^verbatim>\<open>int\<close>.
\<close>

definition k90_usage_to_gkey :: "32 word \<Rightarrow> int" where
  "k90_usage_to_gkey usage =
     (if usage \<ge> 0xd0 \<and> usage \<le> 0xdf then sint (usage - 0xd0 + 1)
      else if usage \<ge> 0xe8 \<and> usage \<le> 0xe9 then sint (usage - 0xe8 + 17)
      else 0)"

subsection \<open>Device State\<close>

text \<open>
  \<^verbatim>\<open>struct k90_drvdata\<close>. The five fields are C \<^verbatim>\<open>int\<close>s; every value the driver
  stores in them lies far inside the 32-bit range, so they are modelled as integers. The
  per-device slot read by \<^verbatim>\<open>dev_get_drvdata\<close> is an optional state,
  \<^term>\<open>None\<close> being the NULL pointer of an interface without state.
\<close>

record k90_drvdata =
  brightness :: int
  current_profile :: int
  macro_mode :: int
  macro_record :: int
  meta_locked :: int

text \<open>What \<^verbatim>\<open>kzalloc\<close> hands out: every field zero.\<close>

definition kzalloc_drvdata :: k90_drvdata where
  "kzalloc_drvdata =
     \<lparr>brightness = 0, current_profile = 0, macro_mode = 0, macro_record = 0, meta_locked = 0\<rparr>"

subsection \<open>USB control transfers\<close>

text \<open>
  One call of \<^verbatim>\<open>usb_control_msg\<close> on endpoint 0, by the fields of its setup packet.
  The transport is outside the driver: an outbound transfer is a function from the packet to
  the call's return value, an inbound transfer also yields the contents of the caller's
  buffer after the call.
\<close>

record usb_ctrl =
  request :: "8 word"
  requesttype :: "8 word"
  wValue :: "16 word"
  wIndex :: "16 word"
  wLength :: "16 word"

definition USB_DIR_OUT :: "8 word" where "USB_DIR_OUT = 0x00"
definition USB_DIR_IN :: "8 word" where "USB_DIR_IN = 0x80"
definition USB_TYPE_VENDOR :: "8 word" where "USB_TYPE_VENDOR = 0x40"
definition USB_RECIP_DEVICE :: "8 word" where "USB_RECIP_DEVICE = 0x00"

type_synonym usb_out = "usb_ctrl \<Rightarrow> int"
type_synonym usb_in = "usb_ctrl \<Rightarrow> int \<times> 8 word list"

text \<open>The four outbound requests and the status query, as the driver's calls build them.\<close>

definition brightness_msg :: "int \<Rightarrow> usb_ctrl" where
  "brightness_msg b =
     \<lparr>request = K90_REQUEST_BRIGHTNESS,
      requesttype = USB_DIR_OUT OR USB_TYPE_VENDOR OR USB_RECIP_DEVICE,
      wValue = word_of_int b, wIndex = 0, wLength = 0\<rparr>"

definition macro_msg :: "16 word \<Rightarrow> usb_ctrl" where
  "macro_msg v =
     \<lparr>request = K90_REQUEST_MACRO_MODE,
      requesttype = USB_DIR_OUT OR USB_TYPE_VENDOR OR USB_RECIP_DEVICE,
      wValue = v, wIndex = 0, wLength = 0\<rparr>"

definition profile_msg :: "int \<Rightarrow> usb_ctrl" where
  "profile_msg p =
     \<lparr>request = K90_REQUEST_PROFILE,
      requesttype = USB_DIR_OUT OR USB_TYPE_VENDOR OR USB_RECIP_DEVICE,
      wValue = word_of_int p, wIndex = 0, wLength = 0\<rparr>"

definition status_msg :: usb_ctrl where
  "status_msg =
     \<lparr>request = K90_REQUEST_STATUS,
      requesttype = USB_DIR_IN OR USB_TYPE_VENDOR OR USB_RECIP_DEVICE,
      wValue = 0, wIndex = 0, wLength = 8\<rparr>"

text \<open>
  The outcome of one driver entry point: what it returns, the state slot afterwards and the
  control transfers it issued, in order. A store through a NULL state pointer does not
  return: it is the outcome \<open>NullDeref\<close>.
\<close>

datatype outcome = Return int | NullDeref

record effect =
  retval :: outcome
  drv :: "k90_drvdata option"
  io :: "usb_ctrl list"

subsection \<open>Kernel string helpers\<close>

text \<open>
  \<^verbatim>\<open>kstrtoint(s, 10, &res)\<close> of the kernel's \<^verbatim>\<open>lib/kstrtox.c\<close>, for base 10: an
  optional sign, at least one decimal digit, an optional single newline, then the end of the
  string; the value has to fit the target type. A string is the characters before the
  terminating NUL. The result is \<open>Inl\<close> of the negative error number or \<open>Inr\<close> of the
  parsed value.
\<close>

definition isdigit :: "char \<Rightarrow> bool" where
  "isdigit c = (48 \<le> (of_char c :: int) \<and> (of_char c :: int) \<le> 57)"

definition parse_integer :: "string \<Rightarrow> int" where
  "parse_integer ds = foldl (\<lambda>res c. res * 10 + (of_char c - 48)) 0 ds"

definition kstrtoull_inner :: "string \<Rightarrow> int + int" where
  "kstrtoull_inner s =
     (let ds = takeWhile isdigit s;
          rest = dropWhile isdigit s;
          res = parse_integer ds
      in if res \<ge> 2 ^ 64 then Inl (- ERANGE)
         else if ds = [] then Inl (- EINVAL)
         else let rest' = (case rest of [] \<Rightarrow> [] | c # cs \<Rightarrow> if c = CHR 0x0A then cs else rest)
              in if rest' \<noteq> [] then Inl (- EINVAL) else Inr res)"

definition kstrtoull :: "string \<Rightarrow> int + int" where
  "kstrtoull s =
     (case s of
        [] \<Rightarrow> kstrtoull_inner s
      | c # cs \<Rightarrow> if c = CHR ''+'' then kstrtoull_inner cs else kstrtoull_inner s)"

definition kstrtoll :: "string \<Rightarrow> int + int" where
  "kstrtoll s =
     (if s \<noteq> [] \<and> hd s = CHR ''-'' then
        (case kstrtoull_inner (tl s) of
           Inl rv \<Rightarrow> Inl rv
         | Inr tmp \<Rightarrow> if tmp > 2 ^ 63 then Inl (- ERANGE) else Inr (- tmp))
      else
        (case kstrtoull s of
           Inl rv \<Rightarrow> Inl rv
         | Inr tmp \<Rightarrow> if tmp \<ge> 2 ^ 63 then Inl (- ERANGE) else Inr tmp))"

definition kstrtoint :: "string \<Rightarrow> int + int" where
  "kstrtoint s =
     (case kstrtoll s of
        Inl rv \<Rightarrow> Inl rv
      | Inr tmp \<Rightarrow> if tmp < - (2 ^ 31) \<or> tmp \<ge> 2 ^ 31 then Inl (- ERANGE) else Inr tmp)"

text \<open>
  \<^verbatim>\<open>strncmp\<close>: compares at most \<open>n\<close> characters and stops at the end of either string;
  zero when no difference was met, otherwise negative or positive by the first difference
  (only the sign is fixed by C; the model returns \<open>- 1\<close> or \<open>1\<close>).
\<close>

fun strncmp :: "string \<Rightarrow> string \<Rightarrow> nat \<Rightarrow> int" where
  "strncmp s t 0 = 0"
| "strncmp [] [] (Suc n) = 0"
| "strncmp [] (y # ys) (Suc n) = - 1"
| "strncmp (x # xs) [] (Suc n) = 1"
| "strncmp (x # xs) (y # ys) (Suc n) =
     (if x = y then strncmp xs ys n
      else if (of_char x :: int) < of_char y then - 1 else 1)"

text \<open>The \<^verbatim>\<open>%d\<close> conversion of \<^verbatim>\<open>snprintf\<close>.\<close>

fun dec_nat :: "nat \<Rightarrow> string" where
  "dec_nat n =
     (if n < 10 then [char_of (48 + n)] else dec_nat (n div 10) @ [char_of (48 + n mod 10)])"

definition fmt_d :: "int \<Rightarrow> string" where
  "fmt_d i = (if i < 0 then CHR ''-'' # dec_nat (nat (- i)) else dec_nat (nat i))"

subsection \<open>Control-surface attributes\<close>





text \<open>
  The \<^verbatim>\<open>store\<close> callbacks. \<open>buf\<close> is the written text up to its terminating NUL,
  \<open>count\<close> the byte count the attribute layer passes (at most one page, so that returning
  it as \<^verbatim>\<open>ssize_t\<close> keeps its value). None of the four tests the state pointer: after
  a transfer that returned zero the field is written through it.
\<close>

definition k90_store_brightness ::
  "usb_out \<Rightarrow> k90_drvdata option \<Rightarrow> string \<Rightarrow> nat \<Rightarrow> effect" where
  "k90_store_brightness usb drvdata buf count =
     (case kstrtoint buf of
        Inl rv \<Rightarrow> \<lparr>retval = Return (- EINVAL), drv = drvdata, io = []\<rparr>
      | Inr b \<Rightarrow>
          if b < 0 \<or> b > 3 then \<lparr>retval = Return (- EINVAL), drv = drvdata, io = []\<rparr>
          else let ret = usb (brightness_msg b) in
            if 0 \<noteq> ret then \<lparr>retval = Return ret, drv = drvdata, io = [brightness_msg b]\<rparr>
            else (case drvdata of
                    None \<Rightarrow> \<lparr>retval = NullDeref, drv = None, io = [brightness_msg b]\<rparr>
                  | Some d \<Rightarrow>
                      \<lparr>retval = Return (int count), drv = Some (d\<lparr>brightness := b\<rparr>),
                       io = [brightness_msg b]\<rparr>))"

definition k90_store_macro_mode ::
  "usb_out \<Rightarrow> k90_drvdata option \<Rightarrow> string \<Rightarrow> nat \<Rightarrow> effect" where
  "k90_store_macro_mode usb drvdata buf count =
     (case (if strncmp buf ''SW'' 2 = 0 then Some K90_MACRO_MODE_SW
            else if strncmp buf ''HW'' 2 = 0 then Some K90_MACRO_MODE_HW
            else None) of
        None \<Rightarrow> \<lparr>retval = Return (- EINVAL), drv = drvdata, io = []\<rparr>
      | Some v \<Rightarrow>
          let ret = usb (macro_msg v) in
            if 0 \<noteq> ret then \<lparr>retval = Return ret, drv = drvdata, io = [macro_msg v]\<rparr>
            else (case drvdata of
                    None \<Rightarrow> \<lparr>retval = NullDeref, drv = None, io = [macro_msg v]\<rparr>
                  | Some d \<Rightarrow>
                      \<lparr>retval = Return (int count),
                       drv = Some (d\<lparr>macro_mode := (if v = K90_MACRO_MODE_HW then 1 else 0)\<rparr>),
                       io = [macro_msg v]\<rparr>))"

definition k90_store_macro_record ::
  "usb_out \<Rightarrow> k90_drvdata option \<Rightarrow> string \<Rightarrow> nat \<Rightarrow> effect" where
  "k90_store_macro_record usb drvdata buf count =
     (case (if strncmp buf ''ON'' 2 = 0 then Some K90_MACRO_LED_ON
            else if strncmp buf ''OFF'' 3 = 0 then Some K90_MACRO_LED_OFF
            else None) of
        None \<Rightarrow> \<lparr>retval = Return (- EINVAL), drv = drvdata, io = []\<rparr>
      | Some v \<Rightarrow>
          let ret = usb (macro_msg v) in
            if 0 \<noteq> ret then \<lparr>retval = Return ret, drv = drvdata, io = [macro_msg v]\<rparr>
            else (case drvdata of
                    None \<Rightarrow> \<lparr>retval = NullDeref, drv = None, io = [macro_msg v]\<rparr>
                  | Some d \<Rightarrow>
                      \<lparr>retval = Return (int count),
                       drv = Some (d\<lparr>macro_record := (if v = K90_MACRO_LED_ON then 1 else 0)\<rparr>),
                       io = [macro_msg v]\<rparr>))"

definition k90_store_current_profile ::
  "usb_out \<Rightarrow> k90_drvdata option \<Rightarrow> string \<Rightarrow> nat \<Rightarrow> effect" where
  "k90_store_current_profile usb drvdata buf count =
     (case kstrtoint buf of
        Inl rv \<Rightarrow> \<lparr>retval = Return (- EINVAL), drv = drvdata, io = []\<rparr>
      | Inr p \<Rightarrow>
          if p < 1 \<or> p > 3 then \<lparr>retval = Return (- EINVAL), drv = drvdata, io = []\<rparr>
          else let ret = usb (profile_msg p) in
            if 0 \<noteq> ret then \<lparr>retval = Return ret, drv = drvdata, io = [profile_msg p]\<rparr>
            else (case drvdata of
                    None \<Rightarrow> \<lparr>retval = NullDeref, drv = None, io = [profile_msg p]\<rparr>
                  | Some d \<Rightarrow>
                      \<lparr>retval = Return (int count), drv = Some (d\<lparr>current_profile := p\<rparr>),
                       io = [profile_msg p]\<rparr>))"

subsection \<open>Attach\<close>

text \<open>
  \<^verbatim>\<open>k90_init_special_functions\<close>. Its surroundings are arguments: whether plain
  \<^verbatim>\<open>char\<close> is signed on the target (the reply buffer is \<^verbatim>\<open>char data[8]\<close>), the
  interface number, whether \<^verbatim>\<open>kzalloc\<close> returned memory, the status transfer (return
  value and buffer contents after the call) and the return value of
  \<^verbatim>\<open>sysfs_create_group\<close>. The outcome also lists the kernel-log lines printed and
  tells whether the attribute group \<^verbatim>\<open>k90_attr_group\<close>, the four control-surface
  files, exists on the interface afterwards.
\<close>

definition c_char :: "bool \<Rightarrow> 8 word \<Rightarrow> int" where
  "c_char char_signed w = (if char_signed then sint w else uint w)"

record attach_effect = effect +
  klog :: "string list"
  attr_group :: bool

definition k90_init_special_functions ::
  "bool \<Rightarrow> 8 word \<Rightarrow> bool \<Rightarrow> usb_in \<Rightarrow> int \<Rightarrow> attach_effect" where
  "k90_init_special_functions char_signed bInterfaceNumber kzalloc_ok usb sysfs_create_group =
     (if bInterfaceNumber = 0 then
        if \<not> kzalloc_ok
        then \<lparr>retval = Return (- ENOMEM), drv = None, io = [], klog = [], attr_group = False\<rparr>
        else
          let (ret, data) = usb status_msg;
              drvdata =
                (if ret < 0 then kzalloc_drvdata\<lparr>brightness := 0, current_profile := 1\<rparr>
                 else kzalloc_drvdata
                        \<lparr>brightness := c_char char_signed (data ! 4),
                         current_profile := c_char char_signed (data ! 7)\<rparr>);
              msgs =
                (if ret < 0
                 then [''Failed to get K90 initial state (error '' @ fmt_d ret @ '').'' @ [CHR 0x0A]]
                 else [])
          in if 0 \<noteq> sysfs_create_group
             then \<lparr>retval = Return sysfs_create_group, drv = None, io = [status_msg],
                   klog = msgs, attr_group = False\<rparr>
             else \<lparr>retval = Return 0, drv = Some drvdata, io = [status_msg],
                   klog = msgs, attr_group = True\<rparr>
      else \<lparr>retval = Return 0, drv = None, io = [], klog = [], attr_group = False\<rparr>)"

subsection \<open>Inbound reports\<close>

text \<open>
  \<^verbatim>\<open>k90_event\<close>: \<open>hid\<close> is \<^verbatim>\<open>usage->hid\<close>, \<open>v\<close> the report's \<^verbatim>\<open>value\<close>. The
  \<^verbatim>\<open>switch\<close> is on the usage id \<^verbatim>\<open>usage->hid & HID_USAGE\<close>; the differences are
  taken on \<^verbatim>\<open>unsigned\<close> and stored in an \<^verbatim>\<open>int\<close>.
\<close>

definition k90_event :: "k90_drvdata option \<Rightarrow> 32 word \<Rightarrow> 32 word \<Rightarrow> effect" where
  "k90_event drvdata hid v =
     (case drvdata of
        None \<Rightarrow> \<lparr>retval = Return 0, drv = None, io = []\<rparr>
      | Some d \<Rightarrow>
          let u = hid AND HID_USAGE;
              d' =
                (if u = K90_USAGE_MACRO_RECORD_START then d\<lparr>macro_record := 1\<rparr>
                 else if u = K90_USAGE_MACRO_RECORD_STOP then d\<lparr>macro_record := 0\<rparr>
                 else if u = K90_USAGE_M1 \<or> u = K90_USAGE_M2 \<or> u = K90_USAGE_M3
                   then d\<lparr>current_profile := sint (u - K90_USAGE_PROFILE + 1)\<rparr>
                 else if u = K90_USAGE_META_OFF then d\<lparr>meta_locked := 0\<rparr>
                 else if u = K90_USAGE_META_ON then d\<lparr>meta_locked := 0\<rparr>
                 else if u = K90_USAGE_LIGHT_OFF \<or> u = K90_USAGE_LIGHT_DIM
                       \<or> u = K90_USAGE_LIGHT_MEDIUM \<or> u = K90_USAGE_LIGHT_BRIGHT
                   then d\<lparr>brightness := sint (u - K90_USAGE_LIGHT)\<rparr>
                 else d)
          in \<lparr>retval = Return 0, drv = Some d', io = []\<rparr>)"

subsection \<open>Input mapping\<close>

text \<open>
  The table \<^verbatim>\<open>k90_gkey_map\<close> with its built-in contents; the module parameter
  \<^verbatim>\<open>gkey_codes\<close> may overwrite entries of the 18-element array at load time, so the
  mapping callback takes the table in force as an argument.
\<close>

definition k90_gkey_map :: "16 word list" where
  "k90_gkey_map =
     [KEY_F13, KEY_F14, KEY_F15, KEY_F16, KEY_F17, KEY_F18,
      KEY_F19, KEY_F20, KEY_F21, KEY_F22, KEY_F23, KEY_F24,
      BTN_MISC + 0, BTN_MISC + 1, BTN_MISC + 2, BTN_MISC + 3, BTN_MISC + 4, BTN_MISC + 5]"

text \<open>
  \<^verbatim>\<open>k90_input_mapping\<close> returns its \<^verbatim>\<open>int\<close> and, when it called
  \<^verbatim>\<open>hid_map_usage_clear\<close>, the event type and code it registered for the usage.
\<close>

definition k90_input_mapping :: "16 word list \<Rightarrow> 32 word \<Rightarrow> int \<times> (16 word \<times> 16 word) option" where
  "k90_input_mapping gkey_map hid =
     (let gkey = k90_usage_to_gkey (hid AND HID_USAGE) in
      if gkey \<noteq> 0 then (1, Some (EV_KEY, gkey_map ! nat (gkey - 1)))
      else if (hid AND HID_USAGE) \<ge> K90_USAGE_SPECIAL_MIN
              \<and> (hid AND HID_USAGE) \<le> K90_USAGE_SPECIAL_MAX then (- 1, None)
      else (0, None))"

subsection \<open>Sequences of operations on one Device State\<close>

text \<open>
  The entry points that can change a Device State after attach, each write with the
  transport's answer to its transfer, run one after the other on the state slot.
\<close>

datatype operation =
    Store_brightness usb_out string nat
  | Store_macro_mode usb_out string nat
  | Store_macro_record usb_out string nat
  | Store_current_profile usb_out string nat
  | Input_event "32 word" "32 word"

fun k90_step :: "k90_drvdata option \<Rightarrow> operation \<Rightarrow> effect" where
  "k90_step s (Store_brightness usb buf count) = k90_store_brightness usb s buf count"
| "k90_step s (Store_macro_mode usb buf count) = k90_store_macro_mode usb s buf count"
| "k90_step s (Store_macro_record usb buf count) = k90_store_macro_record usb s buf count"
| "k90_step s (Store_current_profile usb buf count) = k90_store_current_profile usb s buf count"
| "k90_step s (Input_event hid v) = k90_event s hid v"

fun k90_run :: "k90_drvdata option \<Rightarrow> operation list \<Rightarrow> k90_drvdata option" where
  "k90_run s [] = s"
| "k90_run s (x # xs) = k90_run (drv (k90_step s x)) xs"

definition k90_state_ok :: "k90_drvdata \<Rightarrow> bool" where
  "k90_state_ok d = (brightness d \<in> {0, 1, 2, 3} \<and> current_profile d \<in> {1, 2, 3})"

subsection \<open>Sample transports\<close>

text \<open>
  Three transports used to run the entry points on concrete inputs: a device that
  acknowledges every outbound transfer, one that times out (\<^verbatim>\<open>-ETIMEDOUT\<close>), and
  status transfers that answer with eight bytes or time out.
\<close>

definition usb_ack :: usb_out where
  "usb_ack msg = 0"

definition usb_timeout :: usb_out where
  "usb_timeout msg = - 110"

definition status_reply_2_1 :: usb_in where
  "status_reply_2_1 msg = (8, [0, 0, 0, 0, 2, 0, 0, 1])"

definition status_reply_9_0 :: usb_in where
  "status_reply_9_0 msg = (8, [0, 0, 0, 0, 9, 0, 0, 0])"

definition status_timeout :: usb_in where
  "status_timeout msg = (- 110, [0, 0, 0, 0, 0, 0, 0, 0])"

section \<open>Verified properties\<close>

lemmas k90_usage_defs =
  HID_USAGE_def K90_USAGE_SPECIAL_MIN_def K90_USAGE_SPECIAL_MAX_def
  K90_USAGE_MACRO_RECORD_START_def K90_USAGE_MACRO_RECORD_STOP_def
  K90_USAGE_PROFILE_def K90_USAGE_M1_def K90_USAGE_M2_def K90_USAGE_M3_def
  K90_USAGE_META_OFF_def K90_USAGE_META_ON_def K90_USAGE_LIGHT_def
  K90_USAGE_LIGHT_OFF_def K90_USAGE_LIGHT_DIM_def K90_USAGE_LIGHT_MEDIUM_def
  K90_USAGE_LIGHT_BRIGHT_def

subsection \<open>Word arithmetic of the classifier\<close>

lemma sint_word_of_int_small:
  fixes x :: int
  assumes "0 \<le> x" "x < 2 ^ 31"
  shows "sint (word_of_int x :: 32 word) = x"
  using assms by (simp add: int_word_sint)

lemma sint_offset:
  fixes u :: "32 word"
  assumes "a \<le> uint u" "uint u - a + b < 2 ^ 31" "0 \<le> b"
  shows "sint (u - word_of_int a + word_of_int b) = uint u - a + b"
proof -
  have "u - word_of_int a + word_of_int b = (word_of_int (uint u - a + b) :: 32 word)"
    by simp
  moreover have "sint (word_of_int (uint u - a + b) :: 32 word) = uint u - a + b"
    using assms by (intro sint_word_of_int_small) simp_all
  ultimately show ?thesis by simp
qed

lemma gkey_low:
  assumes "0xd0 \<le> u" "u \<le> 0xdf"
  shows "k90_usage_to_gkey u = uint u - 0xd0 + 1"
proof -
  have b: "208 \<le> uint u" "uint u \<le> 223"
    using assms by (simp_all add: word_le_def)
  have "sint (u - 0xd0 + 1) = uint u - 0xd0 + 1"
    using sint_offset [of 208 u 1] b by simp
  then show ?thesis using assms by (simp add: k90_usage_to_gkey_def)
qed

lemma gkey_high:
  assumes "0xe8 \<le> u" "u \<le> 0xe9"
  shows "k90_usage_to_gkey u = uint u - 0xe8 + 17"
proof -
  have b: "232 \<le> uint u" "uint u \<le> 233"
    using assms by (simp_all add: word_le_def)
  have "sint (u - 0xe8 + 17) = uint u - 0xe8 + 17"
    using sint_offset [of 232 u 17] b by simp
  moreover have "\<not> u \<le> 0xdf"
    using b by (simp add: word_le_def)
  ultimately show ?thesis using assms by (simp add: k90_usage_to_gkey_def)
qed

lemma gkey_none:
  assumes "\<not> (0xd0 \<le> u \<and> u \<le> 0xdf)" "\<not> (0xe8 \<le> u \<and> u \<le> 0xe9)"
  shows "k90_usage_to_gkey u = 0"
  using assms by (auto simp add: k90_usage_to_gkey_def)

text \<open>
  C6. The usage classifier is a function of the usage code alone: a code in [0xD0,0xDF]
  yields the G-key index code - 0xD0 + 1, a code in [0xE8,0xE9] yields code - 0xE8 + 17,
  and every other code yields 0, the "not a G-key" sentinel.
\<close>

theorem k90_usage_to_gkey_classification:
  "(0xd0 \<le> u \<and> u \<le> 0xdf \<longrightarrow> k90_usage_to_gkey u = uint u - 0xd0 + 1) \<and>
   (0xe8 \<le> u \<and> u \<le> 0xe9 \<longrightarrow> k90_usage_to_gkey u = uint u - 0xe8 + 17) \<and>
   (\<not> (0xd0 \<le> u \<and> u \<le> 0xdf) \<and> \<not> (0xe8 \<le> u \<and> u \<le> 0xe9) \<longrightarrow> k90_usage_to_gkey u = 0)"
  using gkey_low [of u] gkey_high [of u] gkey_none [of u] by blast

theorem k90_usage_to_gkey_classification_witness:
  "((0xd0 :: 32 word) \<le> 0xd3 \<and> (0xd3 :: 32 word) \<le> 0xdf) \<and> k90_usage_to_gkey 0xd3 = 4 \<and>
   ((0xe8 :: 32 word) \<le> 0xe9 \<and> (0xe9 :: 32 word) \<le> 0xe9) \<and> k90_usage_to_gkey 0xe9 = 18 \<and>
   (\<not> ((0xd0 :: 32 word) \<le> 0xe0 \<and> (0xe0 :: 32 word) \<le> 0xdf) \<and>
    \<not> ((0xe8 :: 32 word) \<le> 0xe0 \<and> (0xe0 :: 32 word) \<le> 0xe9)) \<and> k90_usage_to_gkey 0xe0 = 0"
  using k90_usage_to_gkey_classification [of "0xd3"]
    k90_usage_to_gkey_classification [of "0xe9"]
    k90_usage_to_gkey_classification [of "0xe0"]
  by simp

lemma gkey_bounds: "0 \<le> k90_usage_to_gkey u \<and> k90_usage_to_gkey u \<le> 18"
proof (cases "0xd0 \<le> u \<and> u \<le> 0xdf")
  case True
  then have "208 \<le> uint u" "uint u \<le> 223" by (simp_all add: word_le_def)
  then show ?thesis using gkey_low [of u] True by simp
next
  case False
  show ?thesis
  proof (cases "0xe8 \<le> u \<and> u \<le> 0xe9")
    case True
    then have "232 \<le> uint u" "uint u \<le> 233" by (simp_all add: word_le_def)
    then show ?thesis using gkey_high [of u] True by simp
  next
    case False
    with \<open>\<not> (0xd0 \<le> u \<and> u \<le> 0xdf)\<close> show ?thesis using gkey_none [of u] by simp
  qed
qed

lemma gkey_nonzero_iff:
  "k90_usage_to_gkey u \<noteq> 0 \<longleftrightarrow> (0xd0 \<le> u \<and> u \<le> 0xdf) \<or> (0xe8 \<le> u \<and> u \<le> 0xe9)"
proof -
  have "0xd0 \<le> u \<Longrightarrow> u \<le> 0xdf \<Longrightarrow> k90_usage_to_gkey u \<noteq> 0"
    using gkey_low [of u] by (simp add: word_le_def)
  moreover have "0xe8 \<le> u \<Longrightarrow> u \<le> 0xe9 \<Longrightarrow> k90_usage_to_gkey u \<noteq> 0"
    using gkey_high [of u] by (simp add: word_le_def)
  ultimately show ?thesis using gkey_none [of u] by blast
qed


subsection \<open>Registration of the G-keys\<close>

lemma gkey_index_in_table:
  assumes "k90_usage_to_gkey u \<noteq> 0"
  shows "nat (k90_usage_to_gkey u - 1) < K90_GKEY_COUNT"
  using assms gkey_bounds [of u] unfolding K90_GKEY_COUNT_def by linarith

text \<open>
  C7. Input-mapping registration: a usage classified as a G-key gets the table entry of its
  G-key index registered as a key event and is claimed (1); the built-in table holds the
  twelve codes F13..F24 for G1..G12 and six button codes for G13..G18. Any other usage id in
  [0xF0,0xFF] is suppressed (-1), and every remaining usage is declined (0).
\<close>

theorem k90_input_mapping_registration:
  "(k90_usage_to_gkey (hid AND HID_USAGE) \<noteq> 0 \<longrightarrow>
      nat (k90_usage_to_gkey (hid AND HID_USAGE) - 1) < K90_GKEY_COUNT \<and>
      k90_input_mapping gkey_map hid =
        (1, Some (EV_KEY, gkey_map ! nat (k90_usage_to_gkey (hid AND HID_USAGE) - 1)))) \<and>
   (k90_usage_to_gkey (hid AND HID_USAGE) = 0 \<and>
      0xf0 \<le> (hid AND HID_USAGE) \<and> (hid AND HID_USAGE) \<le> 0xff \<longrightarrow>
      k90_input_mapping gkey_map hid = (- 1, None)) \<and>
   (k90_usage_to_gkey (hid AND HID_USAGE) = 0 \<and>
      \<not> (0xf0 \<le> (hid AND HID_USAGE) \<and> (hid AND HID_USAGE) \<le> 0xff) \<longrightarrow>
      k90_input_mapping gkey_map hid = (0, None)) \<and>
   length k90_gkey_map = K90_GKEY_COUNT \<and>
   take 12 k90_gkey_map = [183, 184, 185, 186, 187, 188, 189, 190, 191, 192, 193, 194] \<and>
   drop 12 k90_gkey_map = [0x100, 0x101, 0x102, 0x103, 0x104, 0x105]"
proof -
  have "k90_usage_to_gkey (hid AND HID_USAGE) \<noteq> 0 \<Longrightarrow>
      k90_input_mapping gkey_map hid =
        (1, Some (EV_KEY, gkey_map ! nat (k90_usage_to_gkey (hid AND HID_USAGE) - 1)))"
    by (simp add: k90_input_mapping_def Let_def)
  moreover have "k90_usage_to_gkey (hid AND HID_USAGE) = 0 \<Longrightarrow>
      0xf0 \<le> (hid AND HID_USAGE) \<Longrightarrow> (hid AND HID_USAGE) \<le> 0xff \<Longrightarrow>
      k90_input_mapping gkey_map hid = (- 1, None)"
    by (simp add: k90_input_mapping_def Let_def K90_USAGE_SPECIAL_MIN_def K90_USAGE_SPECIAL_MAX_def)
  moreover have "k90_usage_to_gkey (hid AND HID_USAGE) = 0 \<Longrightarrow>
      \<not> (0xf0 \<le> (hid AND HID_USAGE) \<and> (hid AND HID_USAGE) \<le> 0xff) \<Longrightarrow>
      k90_input_mapping gkey_map hid = (0, None)"
    by (simp add: k90_input_mapping_def Let_def K90_USAGE_SPECIAL_MIN_def K90_USAGE_SPECIAL_MAX_def)
  moreover have "length k90_gkey_map = K90_GKEY_COUNT"
    by (simp add: k90_gkey_map_def K90_GKEY_COUNT_def)
  moreover have "take 12 k90_gkey_map = [183, 184, 185, 186, 187, 188, 189, 190, 191, 192, 193, 194]"
    by (simp add: k90_gkey_map_def KEY_F13_def KEY_F14_def KEY_F15_def KEY_F16_def KEY_F17_def
        KEY_F18_def KEY_F19_def KEY_F20_def KEY_F21_def KEY_F22_def KEY_F23_def KEY_F24_def)
  moreover have "drop 12 k90_gkey_map = [0x100, 0x101, 0x102, 0x103, 0x104, 0x105]"
    by (simp add: k90_gkey_map_def BTN_MISC_def)
  ultimately show ?thesis
    using gkey_index_in_table [of "hid AND HID_USAGE"] by blast
qed

theorem k90_input_mapping_registration_witness:
  "k90_input_mapping k90_gkey_map 0x000700d0 = (1, Some (EV_KEY, KEY_F13)) \<and>
   k90_input_mapping k90_gkey_map 0x000700e9 = (1, Some (EV_KEY, BTN_MISC + 5)) \<and>
   k90_input_mapping k90_gkey_map 0x000700f6 = (- 1, None) \<and>
   k90_input_mapping k90_gkey_map 0x00070004 = (0, None)"
  using k90_input_mapping_registration [of "0x000700d0" k90_gkey_map]
    k90_input_mapping_registration [of "0x000700e9" k90_gkey_map]
    k90_input_mapping_registration [of "0x000700f6" k90_gkey_map]
    k90_input_mapping_registration [of "0x00070004" k90_gkey_map]
  by (simp add: k90_usage_to_gkey_def HID_USAGE_def k90_gkey_map_def K90_GKEY_COUNT_def)

subsection \<open>Reconciliation from inbound reports\<close>

lemma sint_profile:
  "sint ((0xf1 :: 32 word) - 0xf1 + 1) = 1" "sint ((0xf2 :: 32 word) - 0xf1 + 1) = 2"
  "sint ((0xf3 :: 32 word) - 0xf1 + 1) = 3"
  by simp_all

lemma sint_light:
  "sint ((0xfa :: 32 word) - 0xfa) = 0" "sint ((0xfb :: 32 word) - 0xfa) = 1"
  "sint ((0xfc :: 32 word) - 0xfa) = 2" "sint ((0xfd :: 32 word) - 0xfa) = 3"
  by simp_all

lemma k90_event_Some:
  "k90_event (Some d) hid v =
     \<lparr>retval = Return 0,
      drv = Some
        (let u = hid AND HID_USAGE in
         if u = 0xf6 then d\<lparr>macro_record := 1\<rparr>
         else if u = 0xf7 then d\<lparr>macro_record := 0\<rparr>
         else if u = 0xf1 then d\<lparr>current_profile := 1\<rparr>
         else if u = 0xf2 then d\<lparr>current_profile := 2\<rparr>
         else if u = 0xf3 then d\<lparr>current_profile := 3\<rparr>
         else if u = 0xf4 \<or> u = 0xf5 then d\<lparr>meta_locked := 0\<rparr>
         else if u = 0xfa then d\<lparr>brightness := 0\<rparr>
         else if u = 0xfb then d\<lparr>brightness := 1\<rparr>
         else if u = 0xfc then d\<lparr>brightness := 2\<rparr>
         else if u = 0xfd then d\<lparr>brightness := 3\<rparr>
         else d),
      io = []\<rparr>"
  by (simp add: k90_event_def Let_def k90_usage_defs)

lemma k90_event_None: "k90_event None hid v = \<lparr>retval = Return 0, drv = None, io = []\<rparr>"
  by (simp add: k90_event_def)

text \<open>
  C5. On an interface holding Device State the event handler applies one state transition
  per report and sends nothing: usage 0xF6 sets macro_record to 1 and 0xF7 to 0; 0xF1, 0xF2
  and 0xF3 set current_profile to usage - 0xF1 + 1; 0xF4 and 0xF5 both set meta_locked to 0;
  0xFA..0xFD set brightness to usage - 0xFA; every other usage leaves the state as it was.
\<close>

theorem k90_event_transitions:
  "(hid AND HID_USAGE = 0xf6 \<longrightarrow>
      k90_event (Some d) hid v = \<lparr>retval = Return 0, drv = Some (d\<lparr>macro_record := 1\<rparr>), io = []\<rparr>) \<and>
   (hid AND HID_USAGE = 0xf7 \<longrightarrow>
      k90_event (Some d) hid v = \<lparr>retval = Return 0, drv = Some (d\<lparr>macro_record := 0\<rparr>), io = []\<rparr>) \<and>
   (hid AND HID_USAGE \<in> {0xf1, 0xf2, 0xf3} \<longrightarrow>
      k90_event (Some d) hid v =
        \<lparr>retval = Return 0,
         drv = Some (d\<lparr>current_profile := uint (hid AND HID_USAGE) - 0xf1 + 1\<rparr>), io = []\<rparr>) \<and>
   (hid AND HID_USAGE \<in> {0xf4, 0xf5} \<longrightarrow>
      k90_event (Some d) hid v = \<lparr>retval = Return 0, drv = Some (d\<lparr>meta_locked := 0\<rparr>), io = []\<rparr>) \<and>
   (hid AND HID_USAGE \<in> {0xfa, 0xfb, 0xfc, 0xfd} \<longrightarrow>
      k90_event (Some d) hid v =
        \<lparr>retval = Return 0,
         drv = Some (d\<lparr>brightness := uint (hid AND HID_USAGE) - 0xfa\<rparr>), io = []\<rparr>) \<and>
   (hid AND HID_USAGE \<notin> {0xf1, 0xf2, 0xf3, 0xf4, 0xf5, 0xf6, 0xf7, 0xfa, 0xfb, 0xfc, 0xfd} \<longrightarrow>
      k90_event (Some d) hid v = \<lparr>retval = Return 0, drv = Some d, io = []\<rparr>)"
  by (auto simp add: k90_event_Some Let_def)

theorem k90_event_transitions_witness:
  "k90_event (Some kzalloc_drvdata) 0x000700f6 1 =
     \<lparr>retval = Return 0, drv = Some (kzalloc_drvdata\<lparr>macro_record := 1\<rparr>), io = []\<rparr> \<and>
   k90_event (Some kzalloc_drvdata) 0x000700f3 1 =
     \<lparr>retval = Return 0, drv = Some (kzalloc_drvdata\<lparr>current_profile := 3\<rparr>), io = []\<rparr> \<and>
   k90_event (Some kzalloc_drvdata) 0x000700f5 1 =
     \<lparr>retval = Return 0, drv = Some (kzalloc_drvdata\<lparr>meta_locked := 0\<rparr>), io = []\<rparr> \<and>
   k90_event (Some kzalloc_drvdata) 0x000700fc 1 =
     \<lparr>retval = Return 0, drv = Some (kzalloc_drvdata\<lparr>brightness := 2\<rparr>), io = []\<rparr> \<and>
   k90_event (Some kzalloc_drvdata) 0x00070004 1 =
     \<lparr>retval = Return 0, drv = Some kzalloc_drvdata, io = []\<rparr>"
proof -
  have m: "(0x000700f6 :: 32 word) AND HID_USAGE = 0xf6" "(0x000700f3 :: 32 word) AND HID_USAGE = 0xf3"
    "(0x000700f5 :: 32 word) AND HID_USAGE = 0xf5" "(0x000700fc :: 32 word) AND HID_USAGE = 0xfc"
    "(0x00070004 :: 32 word) AND HID_USAGE = 0x04"
    by (simp_all add: HID_USAGE_def)
  show ?thesis
    using k90_event_transitions [of "0x000700f6" kzalloc_drvdata 1]
      k90_event_transitions [of "0x000700f3" kzalloc_drvdata 1]
      k90_event_transitions [of "0x000700f5" kzalloc_drvdata 1]
      k90_event_transitions [of "0x000700fc" kzalloc_drvdata 1]
      k90_event_transitions [of "0x00070004" kzalloc_drvdata 1]
    by (simp add: m)
qed

text \<open>
  C9. The transition the event handler applies depends on the usage code only, not on the
  report's value: a key-down report (value nonzero) and the matching key-up report (value
  zero) apply the same transition, so one press of a special-function key, reported as the
  two edges, applies its transition twice.
\<close>

theorem k90_event_ignores_value:
  "k90_event s hid v = k90_event s hid v' \<and>
   k90_run s [Input_event hid 1, Input_event hid 0] =
     drv (k90_event (drv (k90_event s hid v)) hid v)"
  by (simp add: k90_event_def)

text \<open>
  C10. Without Device State (NULL driver data) the event handler returns 0, changes nothing
  and issues no transfer; and on any interface, for every usage and value, it returns 0.
\<close>

theorem k90_event_returns_zero:
  "k90_event None hid v = \<lparr>retval = Return 0, drv = None, io = []\<rparr> \<and>
   retval (k90_event s hid v) = Return 0"
  by (cases s) (simp_all add: k90_event_def Let_def)


subsection \<open>Control-surface writes\<close>

lemma strncmp_0_iff: "strncmp s t n = 0 \<longleftrightarrow> take n s = take n t"
  by (induction s t n rule: strncmp.induct) auto

lemma store_brightness_valid:
  assumes "kstrtoint buf = Inr b" "0 \<le> b" "b \<le> 3"
  shows "k90_store_brightness usb (Some d) buf count =
     (if usb (brightness_msg b) \<noteq> 0
      then \<lparr>retval = Return (usb (brightness_msg b)), drv = Some d, io = [brightness_msg b]\<rparr>
      else \<lparr>retval = Return (int count), drv = Some (d\<lparr>brightness := b\<rparr>),
            io = [brightness_msg b]\<rparr>)"
  using assms by (simp add: k90_store_brightness_def Let_def)

lemma store_current_profile_valid:
  assumes "kstrtoint buf = Inr p" "1 \<le> p" "p \<le> 3"
  shows "k90_store_current_profile usb (Some d) buf count =
     (if usb (profile_msg p) \<noteq> 0
      then \<lparr>retval = Return (usb (profile_msg p)), drv = Some d, io = [profile_msg p]\<rparr>
      else \<lparr>retval = Return (int count), drv = Some (d\<lparr>current_profile := p\<rparr>),
            io = [profile_msg p]\<rparr>)"
  using assms by (simp add: k90_store_current_profile_def Let_def)

lemma store_macro_mode_SW:
  assumes "take 2 buf = ''SW''"
  shows "k90_store_macro_mode usb (Some d) buf count =
     (if usb (macro_msg K90_MACRO_MODE_SW) \<noteq> 0
      then \<lparr>retval = Return (usb (macro_msg K90_MACRO_MODE_SW)), drv = Some d,
            io = [macro_msg K90_MACRO_MODE_SW]\<rparr>
      else \<lparr>retval = Return (int count), drv = Some (d\<lparr>macro_mode := 0\<rparr>),
            io = [macro_msg K90_MACRO_MODE_SW]\<rparr>)"
  using assms
  by (simp add: k90_store_macro_mode_def Let_def strncmp_0_iff
      K90_MACRO_MODE_SW_def K90_MACRO_MODE_HW_def)

lemma store_macro_mode_HW:
  assumes "take 2 buf = ''HW''"
  shows "k90_store_macro_mode usb (Some d) buf count =
     (if usb (macro_msg K90_MACRO_MODE_HW) \<noteq> 0
      then \<lparr>retval = Return (usb (macro_msg K90_MACRO_MODE_HW)), drv = Some d,
            io = [macro_msg K90_MACRO_MODE_HW]\<rparr>
      else \<lparr>retval = Return (int count), drv = Some (d\<lparr>macro_mode := 1\<rparr>),
            io = [macro_msg K90_MACRO_MODE_HW]\<rparr>)"
  using assms
  by (simp add: k90_store_macro_mode_def Let_def strncmp_0_iff
      K90_MACRO_MODE_SW_def K90_MACRO_MODE_HW_def)

lemma store_macro_record_ON:
  assumes "take 2 buf = ''ON''"
  shows "k90_store_macro_record usb (Some d) buf count =
     (if usb (macro_msg K90_MACRO_LED_ON) \<noteq> 0
      then \<lparr>retval = Return (usb (macro_msg K90_MACRO_LED_ON)), drv = Some d,
            io = [macro_msg K90_MACRO_LED_ON]\<rparr>
      else \<lparr>retval = Return (int count), drv = Some (d\<lparr>macro_record := 1\<rparr>),
            io = [macro_msg K90_MACRO_LED_ON]\<rparr>)"
  using assms
  by (simp add: k90_store_macro_record_def Let_def strncmp_0_iff
      K90_MACRO_LED_ON_def K90_MACRO_LED_OFF_def)

lemma store_macro_record_OFF:
  assumes "take 3 buf = ''OFF''"
  shows "k90_store_macro_record usb (Some d) buf count =
     (if usb (macro_msg K90_MACRO_LED_OFF) \<noteq> 0
      then \<lparr>retval = Return (usb (macro_msg K90_MACRO_LED_OFF)), drv = Some d,
            io = [macro_msg K90_MACRO_LED_OFF]\<rparr>
      else \<lparr>retval = Return (int count), drv = Some (d\<lparr>macro_record := 0\<rparr>),
            io = [macro_msg K90_MACRO_LED_OFF]\<rparr>)"
proof -
  have "take 2 buf \<noteq> ''ON''"
  proof
    assume "take 2 buf = ''ON''"
    then have "take 2 (take 3 buf) = ''ON''" by simp
    then show False using assms by simp
  qed
  then show ?thesis
    using assms
    by (simp add: k90_store_macro_record_def Let_def strncmp_0_iff
        K90_MACRO_LED_ON_def K90_MACRO_LED_OFF_def)
qed


lemma kstrtoint_samples:
  "kstrtoint ''2'' = Inr 2" "kstrtoint ''9'' = Inr 9" "kstrtoint ''0'' = Inr 0"
  "kstrtoint ''two'' = Inl (- EINVAL)"
  by (simp_all add: kstrtoint_def kstrtoll_def kstrtoull_def kstrtoull_inner_def isdigit_def
      parse_integer_def)

lemma prefix_OFF_not_ON:
  assumes "take 3 buf = ''OFF''"
  shows "take 2 buf \<noteq> ''ON''"
proof
  assume "take 2 buf = ''ON''"
  then have "take 2 (take 3 buf) = ''ON''" by simp
  then show False using assms by simp
qed

text \<open>
  C1. For each of the four control-surface writes that passed validation on an interface
  with Device State: a nonzero result of the control transfer is returned unchanged and the
  state keeps its prior value; a zero result stores exactly the value sent (the validated
  integer for brightness and profile, macro_mode 1 iff the token was HW, macro_record 1 iff
  the token was ON) and the write returns the byte count.
\<close>

theorem k90_store_transaction_outcome:
  "(kstrtoint buf = Inr b \<and> 0 \<le> b \<and> b \<le> 3 \<longrightarrow>
      (usb (brightness_msg b) \<noteq> 0 \<longrightarrow>
         k90_store_brightness usb (Some d) buf count =
           \<lparr>retval = Return (usb (brightness_msg b)), drv = Some d, io = [brightness_msg b]\<rparr>) \<and>
      (usb (brightness_msg b) = 0 \<longrightarrow>
         k90_store_brightness usb (Some d) buf count =
           \<lparr>retval = Return (int count), drv = Some (d\<lparr>brightness := b\<rparr>),
            io = [brightness_msg b]\<rparr>)) \<and>
   (kstrtoint buf = Inr p \<and> 1 \<le> p \<and> p \<le> 3 \<longrightarrow>
      (usb (profile_msg p) \<noteq> 0 \<longrightarrow>
         k90_store_current_profile usb (Some d) buf count =
           \<lparr>retval = Return (usb (profile_msg p)), drv = Some d, io = [profile_msg p]\<rparr>) \<and>
      (usb (profile_msg p) = 0 \<longrightarrow>
         k90_store_current_profile usb (Some d) buf count =
           \<lparr>retval = Return (int count), drv = Some (d\<lparr>current_profile := p\<rparr>),
            io = [profile_msg p]\<rparr>)) \<and>
   (take 2 buf = ''SW'' \<or> take 2 buf = ''HW'' \<longrightarrow>
      (usb (macro_msg (if take 2 buf = ''HW'' then K90_MACRO_MODE_HW else K90_MACRO_MODE_SW)) \<noteq> 0 \<longrightarrow>
         k90_store_macro_mode usb (Some d) buf count =
           \<lparr>retval = Return (usb (macro_msg
               (if take 2 buf = ''HW'' then K90_MACRO_MODE_HW else K90_MACRO_MODE_SW))),
            drv = Some d,
            io = [macro_msg (if take 2 buf = ''HW'' then K90_MACRO_MODE_HW else K90_MACRO_MODE_SW)]\<rparr>) \<and>
      (usb (macro_msg (if take 2 buf = ''HW'' then K90_MACRO_MODE_HW else K90_MACRO_MODE_SW)) = 0 \<longrightarrow>
         k90_store_macro_mode usb (Some d) buf count =
           \<lparr>retval = Return (int count),
            drv = Some (d\<lparr>macro_mode := (if take 2 buf = ''HW'' then 1 else 0)\<rparr>),
            io = [macro_msg (if take 2 buf = ''HW'' then K90_MACRO_MODE_HW else K90_MACRO_MODE_SW)]\<rparr>)) \<and>
   (take 2 buf = ''ON'' \<or> take 3 buf = ''OFF'' \<longrightarrow>
      (usb (macro_msg (if take 2 buf = ''ON'' then K90_MACRO_LED_ON else K90_MACRO_LED_OFF)) \<noteq> 0 \<longrightarrow>
         k90_store_macro_record usb (Some d) buf count =
           \<lparr>retval = Return (usb (macro_msg
               (if take 2 buf = ''ON'' then K90_MACRO_LED_ON else K90_MACRO_LED_OFF))),
            drv = Some d,
            io = [macro_msg (if take 2 buf = ''ON'' then K90_MACRO_LED_ON else K90_MACRO_LED_OFF)]\<rparr>) \<and>
      (usb (macro_msg (if take 2 buf = ''ON'' then K90_MACRO_LED_ON else K90_MACRO_LED_OFF)) = 0 \<longrightarrow>
         k90_store_macro_record usb (Some d) buf count =
           \<lparr>retval = Return (int count),
            drv = Some (d\<lparr>macro_record := (if take 2 buf = ''ON'' then 1 else 0)\<rparr>),
            io = [macro_msg (if take 2 buf = ''ON'' then K90_MACRO_LED_ON else K90_MACRO_LED_OFF)]\<rparr>))"
proof (intro conjI impI; (elim conjE)?)
  assume "kstrtoint buf = Inr b" "0 \<le> b" "b \<le> 3" "usb (brightness_msg b) \<noteq> 0"
  then show "k90_store_brightness usb (Some d) buf count =
      \<lparr>retval = Return (usb (brightness_msg b)), drv = Some d, io = [brightness_msg b]\<rparr>"
    by (simp add: store_brightness_valid)
next
  assume "kstrtoint buf = Inr b" "0 \<le> b" "b \<le> 3" "usb (brightness_msg b) = 0"
  then show "k90_store_brightness usb (Some d) buf count =
      \<lparr>retval = Return (int count), drv = Some (d\<lparr>brightness := b\<rparr>), io = [brightness_msg b]\<rparr>"
    by (simp add: store_brightness_valid)
next
  assume "kstrtoint buf = Inr p" "1 \<le> p" "p \<le> 3" "usb (profile_msg p) \<noteq> 0"
  then show "k90_store_current_profile usb (Some d) buf count =
      \<lparr>retval = Return (usb (profile_msg p)), drv = Some d, io = [profile_msg p]\<rparr>"
    by (simp add: store_current_profile_valid)
next
  assume "kstrtoint buf = Inr p" "1 \<le> p" "p \<le> 3" "usb (profile_msg p) = 0"
  then show "k90_store_current_profile usb (Some d) buf count =
      \<lparr>retval = Return (int count), drv = Some (d\<lparr>current_profile := p\<rparr>), io = [profile_msg p]\<rparr>"
    by (simp add: store_current_profile_valid)
next
  assume t: "take 2 buf = ''SW'' \<or> take 2 buf = ''HW''"
    and u: "usb (macro_msg (if take 2 buf = ''HW'' then K90_MACRO_MODE_HW else K90_MACRO_MODE_SW)) \<noteq> 0"
  from t u show "k90_store_macro_mode usb (Some d) buf count =
      \<lparr>retval = Return (usb (macro_msg
          (if take 2 buf = ''HW'' then K90_MACRO_MODE_HW else K90_MACRO_MODE_SW))),
       drv = Some d,
       io = [macro_msg (if take 2 buf = ''HW'' then K90_MACRO_MODE_HW else K90_MACRO_MODE_SW)]\<rparr>"
    by (auto simp add: store_macro_mode_SW store_macro_mode_HW)
next
  assume t: "take 2 buf = ''SW'' \<or> take 2 buf = ''HW''"
    and u: "usb (macro_msg (if take 2 buf = ''HW'' then K90_MACRO_MODE_HW else K90_MACRO_MODE_SW)) = 0"
  from t u show "k90_store_macro_mode usb (Some d) buf count =
      \<lparr>retval = Return (int count),
       drv = Some (d\<lparr>macro_mode := (if take 2 buf = ''HW'' then 1 else 0)\<rparr>),
       io = [macro_msg (if take 2 buf = ''HW'' then K90_MACRO_MODE_HW else K90_MACRO_MODE_SW)]\<rparr>"
    by (auto simp add: store_macro_mode_SW store_macro_mode_HW)
next
  assume t: "take 2 buf = ''ON'' \<or> take 3 buf = ''OFF''"
    and u: "usb (macro_msg (if take 2 buf = ''ON'' then K90_MACRO_LED_ON else K90_MACRO_LED_OFF)) \<noteq> 0"
  have x: "take 3 buf = ''OFF'' \<Longrightarrow> take 2 buf \<noteq> ''ON''"
    by (rule prefix_OFF_not_ON)
  from t u x show "k90_store_macro_record usb (Some d) buf count =
      \<lparr>retval = Return (usb (macro_msg
          (if take 2 buf = ''ON'' then K90_MACRO_LED_ON else K90_MACRO_LED_OFF))),
       drv = Some d,
       io = [macro_msg (if take 2 buf = ''ON'' then K90_MACRO_LED_ON else K90_MACRO_LED_OFF)]\<rparr>"
    by (auto simp add: store_macro_record_ON store_macro_record_OFF)
next
  assume t: "take 2 buf = ''ON'' \<or> take 3 buf = ''OFF''"
    and u: "usb (macro_msg (if take 2 buf = ''ON'' then K90_MACRO_LED_ON else K90_MACRO_LED_OFF)) = 0"
  have x: "take 3 buf = ''OFF'' \<Longrightarrow> take 2 buf \<noteq> ''ON''"
    by (rule prefix_OFF_not_ON)
  from t u x show "k90_store_macro_record usb (Some d) buf count =
      \<lparr>retval = Return (int count),
       drv = Some (d\<lparr>macro_record := (if take 2 buf = ''ON'' then 1 else 0)\<rparr>),
       io = [macro_msg (if take 2 buf = ''ON'' then K90_MACRO_LED_ON else K90_MACRO_LED_OFF)]\<rparr>"
    by (auto simp add: store_macro_record_ON store_macro_record_OFF)
qed

theorem k90_store_transaction_outcome_witness:
  "k90_store_brightness usb_ack (Some kzalloc_drvdata) ''2'' 1 =
     \<lparr>retval = Return 1, drv = Some (kzalloc_drvdata\<lparr>brightness := 2\<rparr>), io = [brightness_msg 2]\<rparr> \<and>
   k90_store_current_profile usb_timeout (Some kzalloc_drvdata) ''2'' 1 =
     \<lparr>retval = Return (- 110), drv = Some kzalloc_drvdata, io = [profile_msg 2]\<rparr> \<and>
   k90_store_macro_mode usb_ack (Some kzalloc_drvdata) ''HW'' 2 =
     \<lparr>retval = Return 2, drv = Some (kzalloc_drvdata\<lparr>macro_mode := 1\<rparr>),
      io = [macro_msg K90_MACRO_MODE_HW]\<rparr> \<and>
   k90_store_macro_record usb_timeout (Some kzalloc_drvdata) ''OFF'' 3 =
     \<lparr>retval = Return (- 110), drv = Some kzalloc_drvdata, io = [macro_msg K90_MACRO_LED_OFF]\<rparr>"
  using k90_store_transaction_outcome [of "''2''" 2 usb_ack kzalloc_drvdata 1 2]
    k90_store_transaction_outcome [of "''2''" 2 usb_timeout kzalloc_drvdata 1 2]
    k90_store_transaction_outcome [of "''HW''" 2 usb_ack kzalloc_drvdata 2 2]
    k90_store_transaction_outcome [of "''OFF''" 2 usb_timeout kzalloc_drvdata 3 2]
  by (simp add: kstrtoint_samples usb_ack_def usb_timeout_def)


subsection \<open>Validation\<close>

text \<open>
  C3 (as amended). Every control-surface write validates its input before any transfer: a
  brightness write whose text does not parse as a decimal integer in [0,3], a profile write
  whose text does not parse as one in [1,3], a macro-mode write whose text does not begin
  with SW or HW, and a macro-record write whose text does not begin with ON or OFF each
  return -EINVAL with no transfer sent and the state slot unchanged.
\<close>

theorem k90_store_rejects_invalid:
  "(\<not> (\<exists>b. kstrtoint buf = Inr b \<and> 0 \<le> b \<and> b \<le> 3) \<longrightarrow>
      k90_store_brightness usb s buf count = \<lparr>retval = Return (- EINVAL), drv = s, io = []\<rparr>) \<and>
   (\<not> (\<exists>p. kstrtoint buf = Inr p \<and> 1 \<le> p \<and> p \<le> 3) \<longrightarrow>
      k90_store_current_profile usb s buf count = \<lparr>retval = Return (- EINVAL), drv = s, io = []\<rparr>) \<and>
   (take 2 buf \<noteq> ''SW'' \<and> take 2 buf \<noteq> ''HW'' \<longrightarrow>
      k90_store_macro_mode usb s buf count = \<lparr>retval = Return (- EINVAL), drv = s, io = []\<rparr>) \<and>
   (take 2 buf \<noteq> ''ON'' \<and> take 3 buf \<noteq> ''OFF'' \<longrightarrow>
      k90_store_macro_record usb s buf count = \<lparr>retval = Return (- EINVAL), drv = s, io = []\<rparr>)"
proof (intro conjI impI)
  assume "\<not> (\<exists>b. kstrtoint buf = Inr b \<and> 0 \<le> b \<and> b \<le> 3)"
  then show "k90_store_brightness usb s buf count = \<lparr>retval = Return (- EINVAL), drv = s, io = []\<rparr>"
    by (cases "kstrtoint buf") (auto simp add: k90_store_brightness_def)
next
  assume "\<not> (\<exists>p. kstrtoint buf = Inr p \<and> 1 \<le> p \<and> p \<le> 3)"
  then show "k90_store_current_profile usb s buf count = \<lparr>retval = Return (- EINVAL), drv = s, io = []\<rparr>"
    by (cases "kstrtoint buf") (auto simp add: k90_store_current_profile_def)
next
  assume "take 2 buf \<noteq> ''SW'' \<and> take 2 buf \<noteq> ''HW''"
  then show "k90_store_macro_mode usb s buf count = \<lparr>retval = Return (- EINVAL), drv = s, io = []\<rparr>"
    by (simp add: k90_store_macro_mode_def strncmp_0_iff)
next
  assume "take 2 buf \<noteq> ''ON'' \<and> take 3 buf \<noteq> ''OFF''"
  then show "k90_store_macro_record usb s buf count = \<lparr>retval = Return (- EINVAL), drv = s, io = []\<rparr>"
    by (simp add: k90_store_macro_record_def strncmp_0_iff)
qed

theorem k90_store_rejects_invalid_witness:
  "k90_store_brightness usb_ack (Some kzalloc_drvdata) ''9'' 1 =
     \<lparr>retval = Return (- EINVAL), drv = Some kzalloc_drvdata, io = []\<rparr> \<and>
   k90_store_current_profile usb_ack (Some kzalloc_drvdata) ''0'' 1 =
     \<lparr>retval = Return (- EINVAL), drv = Some kzalloc_drvdata, io = []\<rparr> \<and>
   k90_store_macro_mode usb_ack (Some kzalloc_drvdata) ''bogus'' 5 =
     \<lparr>retval = Return (- EINVAL), drv = Some kzalloc_drvdata, io = []\<rparr> \<and>
   k90_store_macro_record usb_ack (Some kzalloc_drvdata) ''two'' 3 =
     \<lparr>retval = Return (- EINVAL), drv = Some kzalloc_drvdata, io = []\<rparr>"
  using k90_store_rejects_invalid [of "''9''" usb_ack "Some kzalloc_drvdata" 1]
    k90_store_rejects_invalid [of "''0''" usb_ack "Some kzalloc_drvdata" 1]
    k90_store_rejects_invalid [of "''bogus''" usb_ack "Some kzalloc_drvdata" 5]
    k90_store_rejects_invalid [of "''two''" usb_ack "Some kzalloc_drvdata" 3]
  by (simp add: kstrtoint_samples)

text \<open>
  The claim as first stated asks for exactly one of the two tokens. The text SWAP is not
  the token SW, yet the macro-mode write accepts it and sends the software-mode request.
\<close>

theorem k90_store_macro_mode_prefix_counterexample:
  "''SWAP'' \<noteq> ''SW'' \<and> ''SWAP'' \<noteq> ''HW'' \<and>
   k90_store_macro_mode usb_ack (Some kzalloc_drvdata) ''SWAP'' 4 =
     \<lparr>retval = Return 4, drv = Some (kzalloc_drvdata\<lparr>macro_mode := 0\<rparr>),
      io = [macro_msg K90_MACRO_MODE_SW]\<rparr>"
  by (simp add: store_macro_mode_SW usb_ack_def)

subsection \<open>Attribute access without Device State\<close>






subsection \<open>Seeding at attach\<close>

lemma k90_init_primary:
  assumes "usb status_msg = (ret, data)"
  shows "k90_init_special_functions sg 0 True usb 0 =
     \<lparr>retval = Return 0,
      drv = Some (if ret < 0 then kzalloc_drvdata\<lparr>brightness := 0, current_profile := 1\<rparr>
                  else kzalloc_drvdata\<lparr>brightness := c_char sg (data ! 4),
                                         current_profile := c_char sg (data ! 7)\<rparr>),
      io = [status_msg],
      klog = (if ret < 0
              then [''Failed to get K90 initial state (error '' @ fmt_d ret @ '').'' @ [CHR 0x0A]]
              else []),
      attr_group = True\<rparr>"
  using assms by (simp add: k90_init_special_functions_def)

lemma k90_init_retval_independent:
  "retval (k90_init_special_functions sg n alloc usb sysfs) =
   retval (k90_init_special_functions sg n alloc usb' sysfs)"
  by (simp add: k90_init_special_functions_def split_def Let_def)

text \<open>
  C4. Attach of the primary interface (interface number 0, state allocated, attribute group
  registered): when the initial-status query succeeds, Device State is seeded with brightness
  equal to byte 4 and current_profile equal to byte 7 of the 8-byte reply; when the query
  fails with a negative result, Device State is seeded with brightness 0 and current_profile
  1, the failure is logged, and attach still returns 0. The value attach returns never
  depends on the outcome of the query.
\<close>

theorem k90_init_seeds_state:
  assumes "usb status_msg = (ret, data)" and "length data = 8"
  shows "(0 \<le> ret \<longrightarrow>
            k90_init_special_functions sg 0 True usb 0 =
              \<lparr>retval = Return 0,
               drv = Some (kzalloc_drvdata\<lparr>brightness := c_char sg (data ! 4),
                                            current_profile := c_char sg (data ! 7)\<rparr>),
               io = [status_msg], klog = [], attr_group = True\<rparr>) \<and>
         (ret < 0 \<longrightarrow>
            k90_init_special_functions sg 0 True usb 0 =
              \<lparr>retval = Return 0,
               drv = Some (kzalloc_drvdata\<lparr>brightness := 0, current_profile := 1\<rparr>),
               io = [status_msg],
               klog = [''Failed to get K90 initial state (error '' @ fmt_d ret @ '').''
                       @ [CHR 0x0A]],
               attr_group = True\<rparr>) \<and>
         retval (k90_init_special_functions sg n alloc usb sysfs) =
           retval (k90_init_special_functions sg n alloc usb' sysfs)"
  using assms(1) k90_init_primary [where usb = usb and ret = ret and data = data and sg = sg]
    k90_init_retval_independent [of sg n alloc usb sysfs usb']
  by simp

theorem k90_init_seeds_state_witness:
  "k90_init_special_functions True 0 True status_reply_2_1 0 =
     \<lparr>retval = Return 0,
      drv = Some (kzalloc_drvdata\<lparr>brightness := 2, current_profile := 1\<rparr>),
      io = [status_msg], klog = [], attr_group = True\<rparr> \<and>
   drv (k90_init_special_functions True 0 True status_timeout 0) =
     Some (kzalloc_drvdata\<lparr>brightness := 0, current_profile := 1\<rparr>) \<and>
   retval (k90_init_special_functions True 0 True status_timeout 0) = Return 0 \<and>
   length (klog (k90_init_special_functions True 0 True status_timeout 0)) = 1"
proof -
  have a: "status_reply_2_1 status_msg = (8, [0, 0, 0, 0, 2, 0, 0, 1])"
    by (simp add: status_reply_2_1_def)
  have b: "status_timeout status_msg = (- 110, [0, 0, 0, 0, 0, 0, 0, 0])"
    by (simp add: status_timeout_def)
  have l: "length [0, 0, 0, 0, 2, 0, 0, 1 :: 8 word] = 8" "length [0, 0, 0, 0, 0, 0, 0, 0 :: 8 word] = 8"
    by simp_all
  show ?thesis
    using a b l
      k90_init_seeds_state [where usb = status_reply_2_1 and ret = 8
        and data = "[0, 0, 0, 0, 2, 0, 0, 1]" and sg = True
        and usb' = status_reply_2_1 and n = 0 and alloc = True and sysfs = 0]
      k90_init_seeds_state [where usb = status_timeout and ret = "- 110"
        and data = "[0, 0, 0, 0, 0, 0, 0, 0]" and sg = True
        and usb' = status_timeout and n = 0 and alloc = True and sysfs = 0]
    by (simp add: c_char_def)
qed

subsection \<open>Value ranges\<close>

lemma store_brightness_ok:
  assumes "k90_state_ok d"
  shows "\<exists>d'. drv (k90_store_brightness usb (Some d) buf count) = Some d' \<and> k90_state_ok d'"
proof (cases "kstrtoint buf")
  case (Inl rv)
  then show ?thesis using assms by (simp add: k90_store_brightness_def)
next
  case (Inr b)
  show ?thesis
  proof (cases "b < 0 \<or> b > 3")
    case True
    then show ?thesis using assms Inr by (simp add: k90_store_brightness_def)
  next
    case False
    then have "b = 0 \<or> b = 1 \<or> b = 2 \<or> b = 3" by arith
    then show ?thesis
      using assms Inr False by (auto simp add: k90_store_brightness_def Let_def k90_state_ok_def)
  qed
qed

lemma store_current_profile_ok:
  assumes "k90_state_ok d"
  shows "\<exists>d'. drv (k90_store_current_profile usb (Some d) buf count) = Some d' \<and> k90_state_ok d'"
proof (cases "kstrtoint buf")
  case (Inl rv)
  then show ?thesis using assms by (simp add: k90_store_current_profile_def)
next
  case (Inr p)
  show ?thesis
  proof (cases "p < 1 \<or> p > 3")
    case True
    then show ?thesis using assms Inr by (simp add: k90_store_current_profile_def)
  next
    case False
    then have "p = 1 \<or> p = 2 \<or> p = 3" by arith
    then show ?thesis
      using assms Inr False
      by (auto simp add: k90_store_current_profile_def Let_def k90_state_ok_def)
  qed
qed

lemma store_macro_mode_ok:
  assumes "k90_state_ok d"
  shows "\<exists>d'. drv (k90_store_macro_mode usb (Some d) buf count) = Some d' \<and> k90_state_ok d'"
  using assms by (simp add: k90_store_macro_mode_def Let_def k90_state_ok_def)

lemma store_macro_record_ok:
  assumes "k90_state_ok d"
  shows "\<exists>d'. drv (k90_store_macro_record usb (Some d) buf count) = Some d' \<and> k90_state_ok d'"
  using assms by (simp add: k90_store_macro_record_def Let_def k90_state_ok_def)

lemma event_ok:
  assumes "k90_state_ok d"
  shows "\<exists>d'. drv (k90_event (Some d) hid v) = Some d' \<and> k90_state_ok d'"
  using assms by (simp add: k90_event_Some Let_def k90_state_ok_def)

lemma step_ok:
  assumes "k90_state_ok d"
  shows "\<exists>d'. drv (k90_step (Some d) x) = Some d' \<and> k90_state_ok d'"
  using assms
  by (cases x)
    (simp_all add: store_brightness_ok store_current_profile_ok store_macro_mode_ok
      store_macro_record_ok event_ok)

lemma run_ok:
  assumes "k90_state_ok d"
  shows "\<exists>d'. k90_run (Some d) xs = Some d' \<and> k90_state_ok d'"
  using assms
proof (induction xs arbitrary: d)
  case Nil
  then show ?case by simp
next
  case (Cons x xs)
  from step_ok [OF Cons.prems] obtain d1
    where "drv (k90_step (Some d) x) = Some d1" "k90_state_ok d1" by blast
  then show ?case using Cons.IH [of d1] by simp
qed

lemma init_ok:
  assumes "drv (k90_init_special_functions sg n alloc usb sysfs) = Some d"
    and "usb status_msg = (ret, data)"
    and "ret < 0 \<or> (c_char sg (data ! 4) \<in> {0, 1, 2, 3} \<and> c_char sg (data ! 7) \<in> {1, 2, 3})"
  shows "k90_state_ok d"
  using assms
  by (auto simp add: k90_init_special_functions_def Let_def k90_state_ok_def kzalloc_drvdata_def
      split: if_splits)

text \<open>
  C2 (as amended). When the attach-time status query fails, or its reply carries a
  brightness byte in {0,1,2,3} and a profile byte in {1,2,3}, the Device State created by
  attach has brightness in {0,1,2,3} and current_profile in {1,2,3}, and so has the state
  after every sequence of control-surface writes and inbound reports.
\<close>

theorem k90_ranges_invariant:
  assumes "drv (k90_init_special_functions sg n alloc usb sysfs) = Some d"
    and "usb status_msg = (ret, data)" and "length data = 8"
    and "ret < 0 \<or> (c_char sg (data ! 4) \<in> {0, 1, 2, 3} \<and> c_char sg (data ! 7) \<in> {1, 2, 3})"
  shows "k90_state_ok d \<and> (\<exists>d'. k90_run (Some d) xs = Some d' \<and> k90_state_ok d')"
  using assms init_ok [where sg = sg and n = n and alloc = alloc and usb = usb and sysfs = sysfs
      and d = d and ret = ret and data = data] run_ok [of d xs]
  by simp

theorem k90_ranges_invariant_witness:
  "k90_state_ok (kzalloc_drvdata\<lparr>brightness := 2, current_profile := 1\<rparr>) \<and>
   (\<exists>d'. k90_run (Some (kzalloc_drvdata\<lparr>brightness := 2, current_profile := 1\<rparr>))
            [Store_brightness usb_ack ''3'' 1, Input_event 0x000700f2 1,
             Store_current_profile usb_timeout ''3'' 1] = Some d' \<and>
          k90_state_ok d')"
proof -
  have i: "drv (k90_init_special_functions True 0 True status_reply_2_1 0) =
      Some (kzalloc_drvdata\<lparr>brightness := 2, current_profile := 1\<rparr>)"
    by (simp add: k90_init_special_functions_def status_reply_2_1_def c_char_def)
  have a: "status_reply_2_1 status_msg = (8, [0, 0, 0, 0, 2, 0, 0, 1])"
    by (simp add: status_reply_2_1_def)
  have l: "length [0, 0, 0, 0, 2, 0, 0, 1 :: 8 word] = 8"
    by simp
  have r: "(8 :: int) < 0 \<or> (c_char True ([0, 0, 0, 0, 2, 0, 0, 1] ! 4) \<in> {0, 1, 2, 3} \<and>
      c_char True ([0, 0, 0, 0, 2, 0, 0, 1] ! 7) \<in> {1, 2, 3})"
    by (simp add: c_char_def)
  show ?thesis
    using i a l r
      k90_ranges_invariant [where sg = True and n = 0 and alloc = True
        and usb = status_reply_2_1 and sysfs = 0
        and d = "kzalloc_drvdata\<lparr>brightness := 2, current_profile := 1\<rparr>"
        and ret = 8 and data = "[0, 0, 0, 0, 2, 0, 0, 1]"
        and xs = "[Store_brightness usb_ack ''3'' 1, Input_event 0x000700f2 1,
                   Store_current_profile usb_timeout ''3'' 1]"]
    by simp
qed

text \<open>
  The claim as first stated has no condition on the reply. A status reply with byte 9 at
  offset 4 and byte 0 at offset 7 is copied into the state as it is.
\<close>

theorem k90_init_unvalidated_counterexample:
  "drv (k90_init_special_functions True 0 True status_reply_9_0 0) =
     Some (kzalloc_drvdata\<lparr>brightness := 9, current_profile := 0\<rparr>) \<and>
   \<not> k90_state_ok (kzalloc_drvdata\<lparr>brightness := 9, current_profile := 0\<rparr>)"
  by (simp add: k90_init_special_functions_def status_reply_9_0_def c_char_def k90_state_ok_def
      kzalloc_drvdata_def)


end
